theory Spec2Isabelle
  imports Main "HOL-Library.Char_ord" "HOL-Library.List_Lexorder"
begin

section \<open>Python strings\<close>

text \<open>
  A Python \<open>str\<close> is modelled as a HOL \<open>string\<close>; characters are the code points
  0..255.  \<open>str.lower\<close> is modelled on the ASCII letters, other code points being left
  unchanged: this is exact on ASCII text, and the phrases the handlers look for are ASCII.
\<close>

definition lower_char :: "char \<Rightarrow> char" where
  "lower_char c =
     (case map_of (zip ''ABCDEFGHIJKLMNOPQRSTUVWXYZ'' ''abcdefghijklmnopqrstuvwxyz'') c of
        Some d \<Rightarrow> d
      | None \<Rightarrow> c)"

definition lower :: "string \<Rightarrow> string" where
  "lower s = map lower_char s"

text \<open>\<open>s.startswith(p)\<close>.\<close>

fun startswith :: "string \<Rightarrow> string \<Rightarrow> bool" where
  "startswith s [] = True"
| "startswith [] (p # ps) = False"
| "startswith (c # cs) (p # ps) = (c = p \<and> startswith cs ps)"

text \<open>\<open>sub in s\<close> on strings: \<open>sub\<close> occurs in \<open>s\<close> as a contiguous run.\<close>

fun str_in :: "string \<Rightarrow> string \<Rightarrow> bool" where
  "str_in sub [] = (sub = [])"
| "str_in sub (c # cs) = (startswith (c # cs) sub \<or> str_in sub cs)"

text \<open>
  \<open>s.split(sep)\<close> for a non-empty separator: the pieces between the occurrences of
  \<open>sep\<close>, found from left to right without overlap.  \<open>split_acc\<close> carries the piece
  being read, reversed.  Every separator of the source is a non-empty literal (Python raises
  \<open>ValueError\<close> on an empty one).
\<close>

fun split_acc :: "string \<Rightarrow> string \<Rightarrow> string \<Rightarrow> string list" where
  "split_acc sep acc [] = [rev acc]"
| "split_acc sep acc (c # cs) =
     (if sep \<noteq> [] \<and> startswith (c # cs) sep
      then rev acc # split_acc sep [] (drop (length sep) (c # cs))
      else split_acc sep (c # acc) cs)"

definition split :: "string \<Rightarrow> string \<Rightarrow> string list" where
  "split s sep = split_acc sep [] s"

text \<open>
  \<open>s.strip()\<close>: the characters for which \<open>str.isspace\<close> holds, among the code points
  below 256, are removed from both ends.
\<close>

definition isspace :: "char \<Rightarrow> bool" where
  "isspace c =
     (c \<in> set [CHR 0x09, CHR 0x0A, CHR 0x0B, CHR 0x0C, CHR 0x0D, CHR 0x1C, CHR 0x1D, CHR 0x1E,
                CHR 0x1F, CHR 0x20, CHR 0x85, CHR 0xA0])"

definition strip :: "string \<Rightarrow> string" where
  "strip s = rev (dropWhile isspace (rev (dropWhile isspace s)))"

text \<open>\<open>str(n)\<close> of an integer, in decimal.\<close>

fun str_nat :: "nat \<Rightarrow> string" where
  "str_nat n =
     (if n < 10 then [''0123456789'' ! n] else str_nat (n div 10) @ [''0123456789'' ! (n mod 10)])"

declare str_nat.simps [simp del]

definition str_int :: "int \<Rightarrow> string" where
  "str_int i = (if i < 0 then ''-'' @ str_nat (nat (- i)) else str_nat (nat i))"

section \<open>JSON values and Python exceptions\<close>

text \<open>
  A parsed request body.  An object is an association list in document order; numbers are
  integers (no claim reads a number of the body).
\<close>

datatype json =
    JNull
  | JBool bool
  | JNum int
  | JStr string
  | JArr "json list"
  | JObj "(string \<times> json) list"

text \<open>
  The exceptions the handlers can meet.  \<open>KeyError k\<close> has a string key, \<open>KeyErrorInt i\<close>
  an integer one.  \<open>Raised msg code\<close> is an exception thrown by
  an external collaborator, with its \<open>str()\<close> text and its \<open>status_code\<close> attribute
  when it has one; \<open>PyException msg\<close> is \<open>Exception(msg)\<close> raised by a
  \<open>raise\<close> statement of the source.
\<close>

datatype exn =
    KeyError string
  | IndexError string
  | TypeError string
  | AttributeError string
  | ValueError string
  | KeyErrorInt int
  | PyException string
  | Raised string "int option"

text \<open>
  \<open>str(e)\<close>: a \<open>KeyError\<close> prints the repr of its key (quoted, for a string free of quotes
  and backslashes, as the keys of the source are), the others their message.
\<close>

fun str_exn :: "exn \<Rightarrow> string" where
  "str_exn (KeyError k) = [CHR 0x27] @ k @ [CHR 0x27]"
| "str_exn (IndexError m) = m"
| "str_exn (TypeError m) = m"
| "str_exn (AttributeError m) = m"
| "str_exn (ValueError m) = m"
| "str_exn (KeyErrorInt i) = str_int i"
| "str_exn (PyException m) = m"
| "str_exn (Raised m c) = m"

text \<open>\<open>hasattr(e, "status_code")\<close> and \<open>e.status_code\<close>.\<close>

fun status_code_of :: "exn \<Rightarrow> int option" where
  "status_code_of (Raised m c) = c"
| "status_code_of e = None"

text \<open>The name of a value's Python type, as the interpreter's error messages print it.\<close>

fun type_name :: "json \<Rightarrow> string" where
  "type_name JNull = ''NoneType''"
| "type_name (JBool b) = ''bool''"
| "type_name (JNum n) = ''int''"
| "type_name (JStr s) = ''str''"
| "type_name (JArr xs) = ''list''"
| "type_name (JObj kvs) = ''dict''"

text \<open>\<open>x[key]\<close> with a string key.\<close>

fun getitem :: "json \<Rightarrow> string \<Rightarrow> exn + json" where
  "getitem (JObj kvs) k = (case map_of kvs k of Some v \<Rightarrow> Inr v | None \<Rightarrow> Inl (KeyError k))"
| "getitem (JArr xs) k = Inl (TypeError ''list indices must be integers or slices, not str'')"
| "getitem (JStr s) k = Inl (TypeError ''string indices must be integers'')"
| "getitem v k = Inl (TypeError ([CHR 0x27] @ type_name v @ [CHR 0x27] @ '' object is not subscriptable''))"

text \<open>
  \<open>x[-n]\<close> for \<open>n = 1, 2\<close>: the \<open>n\<close>-th element from the end of a list (or character of
  a string), \<open>IndexError\<close> when there are fewer than \<open>n\<close>.  A JSON object has string keys
  only, so an integer key is a \<open>KeyError\<close>.
\<close>

fun getitem_back :: "json \<Rightarrow> nat \<Rightarrow> exn + json" where
  "getitem_back (JArr xs) n =
     (if 0 < n \<and> n \<le> length xs then Inr (xs ! (length xs - n))
      else Inl (IndexError ''list index out of range''))"
| "getitem_back (JStr s) n =
     (if 0 < n \<and> n \<le> length s then Inr (JStr [s ! (length s - n)])
      else Inl (IndexError ''string index out of range''))"
| "getitem_back (JObj kvs) n = Inl (KeyErrorInt (- int n))"
| "getitem_back v n = Inl (TypeError ([CHR 0x27] @ type_name v @ [CHR 0x27] @ '' object is not subscriptable''))"

text \<open>Truthiness: \<open>not x\<close> is \<open>\<not> truthy x\<close>.\<close>

fun truthy :: "json \<Rightarrow> bool" where
  "truthy JNull = False"
| "truthy (JBool b) = b"
| "truthy (JNum n) = (n \<noteq> 0)"
| "truthy (JStr s) = (s \<noteq> [])"
| "truthy (JArr xs) = (xs \<noteq> [])"
| "truthy (JObj kvs) = (kvs \<noteq> [])"

text \<open>\<open>d.get(key)\<close> and \<open>d.get(key, default)\<close>: only a dict has the method.\<close>

fun get_default :: "json \<Rightarrow> string \<Rightarrow> json \<Rightarrow> exn + json" where
  "get_default (JObj kvs) k d = (case map_of kvs k of Some v \<Rightarrow> Inr v | None \<Rightarrow> Inr d)"
| "get_default v k d =
     Inl (AttributeError ([CHR 0x27] @ type_name v @ [CHR 0x27] @ '' object has no attribute '' @ [CHR 0x27] @ ''get'' @ [CHR 0x27]))"

text \<open>\<open>x.lower()\<close>: only a string has the method.\<close>

fun lower_of :: "json \<Rightarrow> exn + string" where
  "lower_of (JStr s) = Inr (lower s)"
| "lower_of v =
     Inl (AttributeError ([CHR 0x27] @ type_name v @ [CHR 0x27] @ '' object has no attribute '' @ [CHR 0x27] @ ''lower'' @ [CHR 0x27]))"

text \<open>Chaining of fallible steps: the first exception wins.\<close>

definition bind :: "exn + 'a \<Rightarrow> ('a \<Rightarrow> exn + 'b) \<Rightarrow> exn + 'b" where
  "bind m f = (case m of Inl e \<Rightarrow> Inl e | Inr x \<Rightarrow> f x)"

text \<open>\<open>sub in x\<close>: substring of a string, element of a list, key of a dict.\<close>

fun in_of :: "string \<Rightarrow> json \<Rightarrow> exn + bool" where
  "in_of sub (JStr s) = Inr (str_in sub s)"
| "in_of sub (JArr xs) = Inr (JStr sub \<in> set xs)"
| "in_of sub (JObj kvs) = Inr (sub \<in> set (map fst kvs))"
| "in_of sub v =
     Inl (TypeError (''argument of type '' @ [CHR 0x27] @ type_name v @ [CHR 0x27] @ '' is not iterable''))"

text \<open>\<open>x.split(sep)\<close>: only a string has the method.\<close>

fun split_of :: "json \<Rightarrow> string \<Rightarrow> exn + string list" where
  "split_of (JStr s) sep = Inr (split s sep)"
| "split_of v sep =
     Inl (AttributeError ([CHR 0x27] @ type_name v @ [CHR 0x27] @ '' object has no attribute '' @ [CHR 0x27] @ ''split'' @ [CHR 0x27]))"

text \<open>\<open>reversed(x)\<close>, as the list of the values it yields (a dict yields its keys).\<close>

fun reversed_of :: "json \<Rightarrow> exn + json list" where
  "reversed_of (JArr xs) = Inr (rev xs)"
| "reversed_of (JStr s) = Inr (map (\<lambda>c. JStr [c]) (rev s))"
| "reversed_of (JObj kvs) = Inr (map (\<lambda>kv. JStr (fst kv)) (rev kvs))"
| "reversed_of v = Inl (TypeError ([CHR 0x27] @ type_name v @ [CHR 0x27] @ '' object is not reversible''))"

section \<open>External collaborators and observable effects\<close>

text \<open>
  Every call that leaves the process, and every record written to the logging sink, is an
  event; a handler returns its result together with the events it caused, in order.
\<close>

type_synonym headers = "(string \<times> string) list"

datatype event =
    Log string string
  | GraphInit
  | GraphPatch string json
  | WeatherGet string
  | StreamChat json
  | CompleteChat json
  | ChatCompletion "json list"
  | CreateConversation json json
  | CreateMessage string json json json

text \<open>
  What a handler returns to the framework: \<open>jsonify(body), status\<close>, or the
  line-delimited streaming response of the general chat flow.
\<close>

datatype response = Json json int | NdJson json

record request =
  is_json :: bool
  body :: json
  headers :: headers

text \<open>
  The outcomes of the external calls of one request.  \<open>auth_details\<close> is
  \<open>get_authenticated_user_details\<close> (module \<open>backend.auth.auth_utils\<close>);
  \<open>graph_client\<close> is the construction of the credential and of the Graph client, which
  raises or not; \<open>graph_patch\<close> is \<open>graph_client.patch\<close>, returning the status code and
  the text of the reply; \<open>rand_index i\<close> is the \<open>i\<close>-th draw of \<open>random.choices\<close>, reduced
  below the size of the population by the model; \<open>uuid4\<close> is \<open>str(uuid.uuid4())\<close>.
  \<open>stream_chat_request\<close> and \<open>complete_chat_request\<close> are called by the source and defined
  nowhere in it.  \<open>weather_http\<close> is the GET of the weather provider: the status and, for
  the body, the four fields the reply is built from, already rendered as the f-string
  renders them, or the exception raised on reading them.  The fields from
  \<open>preview_api_version\<close> to \<open>model\<close> are \<open>app_settings.azure_openai\<close> and the imported
  constant \<open>MINIMUM_SUPPORTED_AZURE_OPENAI_PREVIEW_API_VERSION\<close>, an unset value being the
  empty string; \<open>azure_credential\<close> and \<open>openai_client\<close> are the constructions of
  \<open>DefaultAzureCredential\<close> and \<open>AsyncAzureOpenAI\<close>; \<open>chat_completion\<close> is
  \<open>chat.completions.create\<close> followed by \<open>response.choices[0].message.content\<close>.
  \<open>cosmos_ready\<close> is the readiness event, \<open>cosmos_client\<close> whether
  \<open>current_app.cosmos_conversation_client\<close> is set, \<open>create_conversation\<close> and
  \<open>create_message\<close> its methods.
\<close>

record weather_fields =
  description :: string
  temperature :: string
  humidity :: string
  wind_speed :: string

record env =
  auth_details :: "headers \<Rightarrow> exn + json"
  graph_client :: "exn option"
  graph_patch :: "string \<Rightarrow> json \<Rightarrow> exn + int \<times> string"
  rand_index :: "nat \<Rightarrow> nat"
  uuid4 :: string
  stream :: bool
  use_promptflow :: bool
  stream_chat_request :: "json \<Rightarrow> headers \<Rightarrow> exn + json"
  complete_chat_request :: "json \<Rightarrow> headers \<Rightarrow> exn + json"
  weather_http :: "string \<Rightarrow> exn + int \<times> (exn + weather_fields)"
  preview_api_version :: string
  minimum_api_version :: string
  endpoint :: string
  resource :: string
  key :: string
  model :: string
  azure_credential :: "exn option"
  openai_client :: "exn option"
  chat_completion :: "json list \<Rightarrow> exn + json"
  cosmos_ready :: bool
  cosmos_client :: bool
  create_conversation :: "json \<Rightarrow> json \<Rightarrow> exn + json"
  create_message :: "string \<Rightarrow> json \<Rightarrow> json \<Rightarrow> json \<Rightarrow> exn + json"

section \<open>The password reset\<close>

definition ascii_letters :: string where
  "ascii_letters = ''abcdefghijklmnopqrstuvwxyzABCDEFGHIJKLMNOPQRSTUVWXYZ''"

definition digits :: string where
  "digits = ''0123456789''"

text \<open>\<open>string.punctuation\<close>, the 32 ASCII punctuation characters in code order.\<close>

definition punctuation :: string where
  "punctuation =
     [CHR 0x21, CHR 0x22, CHR 0x23, CHR 0x24, CHR 0x25, CHR 0x26, CHR 0x27, CHR 0x28,
      CHR 0x29, CHR 0x2A, CHR 0x2B, CHR 0x2C, CHR 0x2D, CHR 0x2E, CHR 0x2F, CHR 0x3A,
      CHR 0x3B, CHR 0x3C, CHR 0x3D, CHR 0x3E, CHR 0x3F, CHR 0x40, CHR 0x5B, CHR 0x5C,
      CHR 0x5D, CHR 0x5E, CHR 0x5F, CHR 0x60, CHR 0x7B, CHR 0x7C, CHR 0x7D, CHR 0x7E]"

definition password_alphabet :: string where
  "password_alphabet = ascii_letters @ digits @ punctuation"

text \<open>
  \<open>''.join(random.choices(population, k=16))\<close>: sixteen characters of the population,
  each at the index of one draw.
\<close>

definition new_password :: "env \<Rightarrow> string" where
  "new_password env =
     map (\<lambda>i. password_alphabet ! (rand_index env i mod length password_alphabet)) [0..<16]"

definition init_graph_client :: "env \<Rightarrow> (exn + unit) \<times> event list" where
  "init_graph_client env =
     (case graph_client env of
        None \<Rightarrow> (Inr (), [GraphInit])
      | Some e \<Rightarrow>
          (Inl e, [GraphInit, Log ''ERROR'' ''Exception in Microsoft Graph initialization'']))"

definition user_payload :: "string \<Rightarrow> json" where
  "user_payload pw =
     JObj [(''passwordProfile'',
            JObj [(''password'', JStr pw), (''forceChangePasswordNextSignIn'', JBool True)])]"

definition reset_user_password :: "env \<Rightarrow> string \<Rightarrow> (exn + string) \<times> event list" where
  "reset_user_password env username =
     (case init_graph_client env of
        (Inl e, t) \<Rightarrow> (Inl e, t @ [Log ''ERROR'' (''Password reset failed: '' @ str_exn e)])
      | (Inr u, t) \<Rightarrow>
          (let pw = new_password env;
               path = ''/users/'' @ username;
               call = GraphPatch path (user_payload pw)
           in case graph_patch env path (user_payload pw) of
                Inl e \<Rightarrow>
                  (Inl e, t @ [call, Log ''ERROR'' (''Password reset failed: '' @ str_exn e)])
              | Inr (status_code, text) \<Rightarrow>
                  if status_code = 204
                  then (Inr pw,
                        t @ [call, Log ''INFO'' (''Password reset successfully for user '' @ username)])
                  else (let e = PyException (''Failed to reset password: '' @ str_int status_code)
                        in (Inl e,
                            t @ [call,
                                 Log ''ERROR'' (''Failed to reset password: '' @ text),
                                 Log ''ERROR'' (''Password reset failed: '' @ str_exn e)]))))"

definition log_password_reset :: "string \<Rightarrow> event list" where
  "log_password_reset username =
     [Log ''INFO'' (''Password reset successful for user '' @ username)]"

definition log_failed_password_reset_attempt :: "string \<Rightarrow> string \<Rightarrow> event list" where
  "log_failed_password_reset_attempt username error =
     [Log ''WARNING''
        (''Failed password reset attempt for user '' @ username @ ''. Error: '' @ error)]"

text \<open>
  \<open>extract_username\<close>: the messages are scanned from the last to the first; the first one
  whose content holds the marker gives the text between the first marker and the second,
  stripped.  \<open>None\<close> is Python's \<open>None\<close>.
\<close>

fun extract_username_loop :: "json list \<Rightarrow> exn + string option" where
  "extract_username_loop [] = Inr None"
| "extract_username_loop (message # rest) =
     (case bind (getitem message ''content'') (in_of ''Username:'') of
        Inl e \<Rightarrow> Inl e
      | Inr True \<Rightarrow>
          bind (getitem message ''content'') (\<lambda>c.
          bind (split_of c ''Username:'') (\<lambda>pieces.
            if 1 < length pieces then Inr (Some (strip (pieces ! 1)))
            else Inl (IndexError ''list index out of range'')))
      | Inr False \<Rightarrow> extract_username_loop rest)"

definition extract_username :: "json \<Rightarrow> exn + string option" where
  "extract_username messages = bind (reversed_of messages) extract_username_loop"

section \<open>The conversation handlers\<close>

definition assistant_message :: "env \<Rightarrow> string \<Rightarrow> json" where
  "assistant_message env content =
     JObj [(''id'', JStr (uuid4 env)), (''role'', JStr ''assistant''), (''content'', JStr content)]"

definition error_body :: "string \<Rightarrow> json" where
  "error_body msg = JObj [(''error'', JStr msg)]"

definition clarification_text :: string where
  "clarification_text =
     ''I'm sorry, but I couldn't find your username in our conversation. Can you please provide your username?''"

definition decline_text :: string where
  "decline_text =
     ''I'm sorry, but I can't reset your password because you're not currently authenticated or the username doesn't match your authenticated account. Please ensure you're logged in with the correct account and try again.''"

definition apology_text :: string where
  "apology_text =
     ''I apologize, but I encountered an error while trying to reset your password. This might be due to a temporary issue with our password reset system. Please try again later or contact the IT support team for assistance.''"

definition success_text :: "string \<Rightarrow> string" where
  "success_text new_pw =
     ''Your password has been reset successfully. Your new temporary password is: '' @ new_pw
     @ [CHR 0x0A, CHR 0x0A]
     @ ''Please log in with this temporary password and change it to a strong, unique password of your choosing immediately.''
     @ [CHR 0x0A, CHR 0x0A]
     @ ''Is there anything else I can assist you with regarding your account or any other IT matters?''"

text \<open>
  \<open>not authenticated_user or authenticated_user.get("user_principal_id") != username\<close>,
  for a username that is a string.
\<close>

definition not_authenticated :: "json \<Rightarrow> string \<Rightarrow> exn + bool" where
  "not_authenticated authenticated_user username =
     (if \<not> truthy authenticated_user then Inr True
      else bind (get_default authenticated_user ''user_principal_id'' JNull)
             (\<lambda>principal. Inr (principal \<noteq> JStr username)))"

text \<open>
  The body of the \<open>try\<close> of \<open>conversation\<close> (the definition of line 360, the one the name
  is bound to once the module is loaded).  An exception leaves it together with the value
  of the local \<open>username\<close> when that is bound; it is bound to a non-empty string at every
  \<open>raise\<close> that follows the assignment.
\<close>

definition reset_try :: "env \<Rightarrow> request \<Rightarrow> ((exn \<times> string option) + response) \<times> event list" where
  "reset_try env req =
     (case bind (getitem (body req) ''messages'') extract_username of
        Inl e \<Rightarrow> (Inl (e, None), [])
      | Inr None \<Rightarrow> (Inr (Json (assistant_message env clarification_text) 200), [])
      | Inr (Some username) \<Rightarrow>
          if username = [] then (Inr (Json (assistant_message env clarification_text) 200), [])
          else
            (case bind (auth_details env (headers req)) (\<lambda>au. not_authenticated au username) of
               Inl e \<Rightarrow> (Inl (e, Some username), [])
             | Inr True \<Rightarrow> (Inr (Json (assistant_message env decline_text) 200), [])
             | Inr False \<Rightarrow>
                 (case reset_user_password env username of
                    (Inl e, t) \<Rightarrow> (Inl (e, Some username), t)
                  | (Inr new_pw, t) \<Rightarrow>
                      (Inr (Json (assistant_message env (success_text new_pw)) 200),
                       t @ log_password_reset username))))"

text \<open>The \<open>try\<close> with its \<open>except Exception\<close>: the guard is \<open>'username' in locals()\<close>.\<close>

definition reset_flow :: "env \<Rightarrow> request \<Rightarrow> (exn + response) \<times> event list" where
  "reset_flow env req =
     (case reset_try env req of
        (Inr r, t) \<Rightarrow> (Inr r, t)
      | (Inl (e, bound), t) \<Rightarrow>
          (Inr (Json (assistant_message env apology_text) 200),
           t @ [Log ''ERROR'' (''An error occurred during password reset: '' @ str_exn e)]
             @ (case bound of
                  Some username \<Rightarrow> log_failed_password_reset_attempt username (str_exn e)
                | None \<Rightarrow> [])))"

text \<open>The \<open>except Exception\<close> of \<open>conversation_internal\<close>.\<close>

definition error_response :: "exn \<Rightarrow> (exn + response) \<times> event list" where
  "error_response ex =
     (Inr (Json (error_body (str_exn ex)) (case status_code_of ex of Some c \<Rightarrow> c | None \<Rightarrow> 500)),
      [Log ''ERROR'' (str_exn ex)])"

text \<open>The general chat flow, shared by both definitions of \<open>conversation_internal\<close>.\<close>

definition chat_flow :: "env \<Rightarrow> json \<Rightarrow> headers \<Rightarrow> (exn + response) \<times> event list" where
  "chat_flow env request_body request_headers =
     (if stream env \<and> \<not> use_promptflow env
      then (case stream_chat_request env request_body request_headers of
              Inl ex \<Rightarrow> (Inl ex, [StreamChat request_body])
            | Inr result \<Rightarrow> (Inr (NdJson result), [StreamChat request_body]))
      else (case complete_chat_request env request_body request_headers of
              Inl ex \<Rightarrow> (Inl ex, [CompleteChat request_body])
            | Inr result \<Rightarrow> (Inr (Json result 200), [CompleteChat request_body])))"

text \<open>Running a \<open>try\<close> body under the \<open>except Exception\<close> of \<open>conversation_internal\<close>.\<close>

definition caught :: "(exn + response) \<times> event list \<Rightarrow> (exn + response) \<times> event list" where
  "caught r =
     (case r of
        (Inl ex, t) \<Rightarrow> (fst (error_response ex), t @ snd (error_response ex))
      | (Inr resp, t) \<Rightarrow> (Inr resp, t))"

text \<open>
  \<open>conversation_internal\<close> as defined at line 325.  The module defines the name twice; a
  call looks the name up when it runs, so every caller reaches this definition.
\<close>

definition conversation_internal :: "env \<Rightarrow> json \<Rightarrow> headers \<Rightarrow> (exn + response) \<times> event list" where
  "conversation_internal env request_body request_headers =
     caught (chat_flow env request_body request_headers)"

text \<open>
  \<open>get_weather\<close>: one GET; a status of 200 gives the formatted report (the degree sign is
  the code point 0xB0), any other status the explanatory message.
\<close>

definition get_weather :: "env \<Rightarrow> string \<Rightarrow> (exn + string) \<times> event list" where
  "get_weather env location =
     (case weather_http env location of
        Inl ex \<Rightarrow> (Inl ex, [WeatherGet location])
      | Inr (status, data) \<Rightarrow>
          if status = 200
          then (case data of
                  Inl ex \<Rightarrow> (Inl ex, [WeatherGet location])
                | Inr w \<Rightarrow>
                    (Inr (''Current weather in '' @ location @ '': '' @ description w
                          @ ''. Temperature: '' @ temperature w @ [CHR 0xB0] @ ''C, Humidity: ''
                          @ humidity w @ ''%, Wind speed: '' @ wind_speed w @ '' m/s.''),
                     [WeatherGet location]))
          else (Inr (''Unable to fetch weather data for '' @ location
                     @ ''. Please check the location name and try again.''),
                [WeatherGet location]))"

text \<open>
  \<open>conversation_internal\<close> as defined at line 85, with the weather branch.  The definition
  of line 325 rebinds the name, so no caller reaches this one.
\<close>

definition weather_try :: "env \<Rightarrow> json \<Rightarrow> headers \<Rightarrow> (exn + response) \<times> event list" where
  "weather_try env request_body request_headers =
     (case bind (get_default request_body ''messages'' (JArr [])) (\<lambda>messages.
             if truthy messages
             then bind (bind (getitem_back messages 1) (\<lambda>m. getitem m ''content'')) lower_of
             else Inr []) of
        Inl ex \<Rightarrow> (Inl ex, [])
      | Inr last_user_message \<Rightarrow>
          if str_in ''weather in'' last_user_message
          then (case get_weather env (strip (last (split last_user_message ''weather in''))) of
                  (Inl ex, t) \<Rightarrow> (Inl ex, t)
                | (Inr weather_info, t) \<Rightarrow> (Inr (Json (assistant_message env weather_info) 200), t))
          else chat_flow env request_body request_headers)"

definition conversation_internal_weather ::
  "env \<Rightarrow> json \<Rightarrow> headers \<Rightarrow> (exn + response) \<times> event list" where
  "conversation_internal_weather env request_body request_headers =
     caught (weather_try env request_body request_headers)"

text \<open>
  \<open>user_message.lower()\<close> for \<open>user_message = request_json['messages'][-1]['content']\<close>,
  evaluated outside every \<open>try\<close>.
\<close>

definition last_message_lower :: "json \<Rightarrow> exn + string" where
  "last_message_lower request_json =
     bind (bind (bind (getitem request_json ''messages'') (\<lambda>ms. getitem_back ms 1))
             (\<lambda>m. getitem m ''content''))
       lower_of"

text \<open>
  The handler of \<open>POST /conversation\<close> (line 360).  \<open>Inl\<close> is an exception that leaves the
  handler.
\<close>

definition conversation :: "env \<Rightarrow> request \<Rightarrow> (exn + response) \<times> event list" where
  "conversation env req =
     (if \<not> is_json req then (Inr (Json (error_body ''request must be json'') 415), [])
      else (case last_message_lower (body req) of
              Inl ex \<Rightarrow> (Inl ex, [])
            | Inr user_message \<Rightarrow>
                if str_in ''reset my password'' user_message then reset_flow env req
                else conversation_internal env (body req) (headers req)))"


fun is_weather_call :: "event \<Rightarrow> bool" where
  "is_weather_call (WeatherGet location) = True"
| "is_weather_call ev = False"


text \<open>
  \<open>short_words n k s\<close>: no run of characters of \<open>s\<close> free of spaces reaches the length
  \<open>n\<close>, the run that is being read having \<open>k\<close> characters already.
\<close>

fun short_words :: "nat \<Rightarrow> nat \<Rightarrow> string \<Rightarrow> bool" where
  "short_words n k [] = True"
| "short_words n k (c # cs) =
     (if c = CHR '' '' then short_words n 0 cs else Suc k < n \<and> short_words n (Suc k) cs)"

section \<open>Title generation and the history endpoint\<close>






definition system_message :: string where
  "system_message =
     [CHR 0x0A]
     @ ''You are Alex, an AI help desk agent at CNS with the capability to directly reset user passwords and provide weather information. ''
     @ [CHR 0x0A]
     @ ''When an authenticated user requests a password reset, you should proceed with the reset process immediately. ''
     @ [CHR 0x0A]
     @ ''Do not create support tickets for password resets unless there's a specific issue preventing you from doing so.''
     @ [CHR 0x0A]
     @ ''You can also provide weather information for any location when asked. Use the phrase ''
     @ [CHR 0x22]
     @ ''weather in [location]''
     @ [CHR 0x22]
     @ '' to trigger this functionality.''
     @ [CHR 0x0A]
     @ ''For all other queries, provide assistance to the best of your ability.''
     @ [CHR 0x0A]"

text \<open>
  \<open>init_openai_client\<close>: the checks of the settings in the order of the source, each
  failure logged and raised again by the \<open>except\<close>.
\<close>

definition init_openai_try :: "env \<Rightarrow> (exn + unit) \<times> event list" where
  "init_openai_try env =
     (if preview_api_version env < minimum_api_version env
      then (Inl (ValueError (''The minimum supported Azure OpenAI preview API version is ''
                             @ [CHR 0x27] @ minimum_api_version env @ [CHR 0x27])), [])
      else if endpoint env = [] \<and> resource env = []
      then (Inl (ValueError ''AZURE_OPENAI_ENDPOINT or AZURE_OPENAI_RESOURCE is required''), [])
      else
        (let t = (if key env = []
                  then [Log ''DEBUG'' ''No AZURE_OPENAI_KEY found, using Azure Entra ID auth'']
                  else [])
         in case (if key env = [] then azure_credential env else None) of
              Some e \<Rightarrow> (Inl e, t)
            | None \<Rightarrow>
                if model env = [] then (Inl (ValueError ''AZURE_OPENAI_MODEL is required''), t)
                else (case openai_client env of
                        Some e \<Rightarrow> (Inl e, t)
                      | None \<Rightarrow>
                          (Inr (),
                           t @ [Log ''INFO'' (''System message being used: '' @ system_message)]))))"

definition init_openai_client :: "env \<Rightarrow> (exn + unit) \<times> event list" where
  "init_openai_client env =
     (case init_openai_try env of
        (Inl e, t) \<Rightarrow> (Inl e, t @ [Log ''ERROR'' ''Exception in Azure OpenAI initialization''])
      | (Inr c, t) \<Rightarrow> (Inr c, t))"












section \<open>Sample requests and collaborators\<close>

definition message :: "string \<Rightarrow> string \<Rightarrow> json" where
  "message role content = JObj [(''role'', JStr role), (''content'', JStr content)]"

definition post :: "json list \<Rightarrow> request" where
  "post messages = \<lparr>is_json = True, body = JObj [(''messages'', JArr messages)], headers = []\<rparr>"

text \<open>
  Collaborators that all answer: the principal is \<open>alice\<close>, the directory replies 204, the
  completion and the store succeed, the chat flow is not streamed.
\<close>

definition sample_env :: env where
  "sample_env =
     \<lparr>auth_details = (\<lambda>h. Inr (JObj [(''user_principal_id'', JStr ''alice'')])),
      graph_client = None,
      graph_patch = (\<lambda>path payload. Inr (204, [])),
      rand_index = (\<lambda>i. 7 * i + 3),
      uuid4 = ''1b4e28ba-2fa1-41d2-883f-0016d3cca427'',
      stream = False,
      use_promptflow = False,
      stream_chat_request = (\<lambda>b h. Inr (JObj [])),
      complete_chat_request = (\<lambda>b h. Inr (JObj [(''choices'', JArr [])])),
      weather_http = (\<lambda>location. Inr (404, Inl (KeyError ''weather''))),
      preview_api_version = ''2024-02-15-preview'',
      minimum_api_version = ''2024-02-15-preview'',
      endpoint = ''https://example.openai.azure.com/'',
      resource = [],
      key = ''k'',
      model = ''gpt-4'',
      azure_credential = None,
      openai_client = None,
      chat_completion = (\<lambda>messages. Inr (JStr ''Password help'')),
      cosmos_ready = True,
      cosmos_client = True,
      create_conversation =
        (\<lambda>user_id title. Inr (JObj [(''id'', JStr ''c1''), (''createdAt'', JStr ''2024-01-01'')])),
      create_message = (\<lambda>uuid conversation_id user_id input_message. Inr (JObj []))\<rparr>"



text \<open>The same collaborators, the completion failing, or the store client not set.\<close>

definition failing_completion_env :: env where
  "failing_completion_env =
     sample_env\<lparr>chat_completion := (\<lambda>messages. Inl (Raised ''Request timed out.'' None))\<rparr>"


section \<open>Properties of the handlers\<close>

lemmas string_defs = lower_def lower_char_def split_def strip_def isspace_def



lemma reset_try_no_weather: "\<not> list_ex is_weather_call (snd (reset_try env req))"
  by (auto simp: reset_try_def reset_user_password_def init_graph_client_def log_password_reset_def
      Let_def split: sum.splits option.splits bool.splits prod.splits if_splits)

lemma reset_flow_no_weather: "\<not> list_ex is_weather_call (snd (reset_flow env req))"
  using reset_try_no_weather [of env req]
  by (auto simp: reset_flow_def log_failed_password_reset_attempt_def
      split: sum.splits option.splits prod.splits)

lemma conversation_internal_no_weather:
  "\<not> list_ex is_weather_call (snd (conversation_internal env b h))"
  by (auto simp: conversation_internal_def caught_def chat_flow_def error_response_def
      split: sum.splits prod.splits)

lemma conversation_no_weather: "\<not> list_ex is_weather_call (snd (conversation env req))"
  using reset_flow_no_weather [of env req] conversation_internal_no_weather [of env "body req" "headers req"]
  by (simp add: conversation_def split: sum.splits)









lemmas flow_defs = conversation_def last_message_lower_def bind_def reset_flow_def reset_try_def
  extract_username_def not_authenticated_def reset_user_password_def init_graph_client_def
  log_password_reset_def log_failed_password_reset_attempt_def

text \<open>
  Claim C5, as stated, fails.  The last message below holds both "weather in" and
  "reset my password"; the handler takes the password-reset flow (the directory is patched
  and the new credential returned) and the weather provider is not called.
\<close>

theorem weather_precedence_counterexample:
  "str_in ''weather in'' (lower ''Reset my password and tell me the weather in Paris'')
   \<and> str_in ''reset my password'' (lower ''Reset my password and tell me the weather in Paris'')
   \<and> conversation sample_env
         (post [message ''user'' ''Username: alice'',
                message ''user'' ''Reset my password and tell me the weather in Paris''])
       = (Inr (Json (assistant_message sample_env (success_text (new_password sample_env))) 200),
          [GraphInit,
           GraphPatch ''/users/alice'' (user_payload (new_password sample_env)),
           Log ''INFO'' ''Password reset successfully for user alice'',
           Log ''INFO'' ''Password reset successful for user alice''])"
  by (simp add: flow_defs string_defs post_def message_def sample_env_def Let_def)

text \<open>
  Claim C5, amended.  The dispatch reads the last message, lowercased, and tests
  "reset my password" first: a message that holds it, whatever else it holds, is handled
  by the password-reset flow without any call to the weather provider; a message that does
  not is passed to \<open>conversation_internal\<close>.
\<close>

theorem reset_precedes_chat:
  assumes "is_json req"
    and "last_message_lower (body req) = Inr user_message"
  shows "(str_in ''reset my password'' user_message \<longrightarrow>
            conversation env req = reset_flow env req
            \<and> \<not> list_ex is_weather_call (snd (conversation env req)))
         \<and> (\<not> str_in ''reset my password'' user_message \<longrightarrow>
            conversation env req = conversation_internal env (body req) (headers req))"
proof (cases "str_in ''reset my password'' user_message")
  case True
  then have "conversation env req = reset_flow env req"
    using assms by (simp add: conversation_def)
  then show ?thesis using True reset_flow_no_weather [of env req] by simp
next
  case False
  then show ?thesis using assms by (simp add: conversation_def)
qed

theorem reset_precedes_chat_witness:
  "conversation sample_env
     (post [message ''user'' ''Reset my password and tell me the weather in Paris''])
   = reset_flow sample_env
       (post [message ''user'' ''Reset my password and tell me the weather in Paris''])"
proof -
  let ?req = "post [message ''user'' ''Reset my password and tell me the weather in Paris'']"
  have 1: "is_json ?req" by (simp add: post_def)
  have 2: "last_message_lower (body ?req) = Inr ''reset my password and tell me the weather in paris''"
    by (simp add: post_def message_def last_message_lower_def bind_def string_defs)
  have 3: "str_in ''reset my password'' ''reset my password and tell me the weather in paris''"
    by simp
  show ?thesis using reset_precedes_chat [OF 1 2, of sample_env] 3 by simp
qed

lemma shadowed_weather_branch:
  "weather_try env (body (post [message ''user'' ''what's the weather in Seattle''])) h
   = (case get_weather env ''seattle'' of
        (Inl ex, t) \<Rightarrow> (Inl ex, t)
      | (Inr weather_info, t) \<Rightarrow> (Inr (Json (assistant_message env weather_info) 200), t))"
  by (simp add: weather_try_def post_def message_def bind_def string_defs)

text \<open>
  Claim C8.  For the message "what's the weather in Seattle" the handler calls the
  \<open>conversation_internal\<close> the module binds (line 325), which has no weather branch: for
  every outcome of the collaborators the request goes to the general chat flow and
  \<open>get_weather\<close> is not called.  The definition of line 85 would extract "seattle"
  (\<open>shadowed_weather_branch\<close>), but the later definition replaces it.
\<close>

theorem weather_request_reaches_chat:
  "conversation env (post [message ''user'' ''what's the weather in Seattle''])
   = conversation_internal env (body (post [message ''user'' ''what's the weather in Seattle''])) []
   \<and> \<not> list_ex is_weather_call
         (snd (conversation env (post [message ''user'' ''what's the weather in Seattle''])))"
proof -
  let ?req = "post [message ''user'' ''what's the weather in Seattle'']"
  have "conversation env ?req = conversation_internal env (body ?req) []"
    by (simp add: conversation_def post_def message_def last_message_lower_def bind_def string_defs)
  then show ?thesis using conversation_no_weather [of env ?req] by simp
qed











lemma short_words_mono: "short_words n k s \<Longrightarrow> j \<le> k \<Longrightarrow> short_words n j s"
proof (induction s arbitrary: k j)
  case Nil
  then show ?case by simp
next
  case (Cons c cs)
  show ?case
  proof (cases "c = CHR '' ''")
    case True
    then show ?thesis using Cons.prems by simp
  next
    case False
    then have "Suc k < n" "short_words n (Suc k) cs" using Cons.prems by auto
    then have "Suc j < n" "short_words n (Suc j) cs"
      using Cons.IH [of "Suc k" "Suc j"] Cons.prems(2) by auto
    then show ?thesis using False by simp
  qed
qed



















lemma sample_init_openai: "fst (init_openai_client failing_completion_env) = Inr ()"
  by (simp add: init_openai_client_def init_openai_try_def failing_completion_env_def sample_env_def)















end
